theory Spec2Isabelle
  imports Main
begin

section \<open>The counter slice: state and case reducers\<close>

text \<open>
  \<^verbatim>\<open>counterSlice.ts\<close> declares the slice state as
  \<^verbatim>\<open>interface CounterState { value: number; status: "idle" | "loading" | "failed" }\<close>.
  The union of string literals is a datatype with three constructors.

  A \<^verbatim>\<open>number\<close> is a binary64 floating-point number. The counter starts at 0
  and the repository only adds integers to it, so the field \<^verbatim>\<open>value\<close> is an
  integer here, and \<^verbatim>\<open>+\<close> and \<^verbatim>\<open>-\<close> are the exact result rounded to the
  nearest number that binary64 has, the even one on a tie. With 53 bits of
  significand, the integers of magnitude up to \<open>2 ^ 53\<close> are all there; from
  \<open>2 ^ 53\<close> to \<open>2 ^ 54\<close> only the multiples of 2, then of 4, and so on:
  \<open>spacing m\<close> is the distance between neighbours at the magnitude \<open>m\<close>.
  Fractions, \<^verbatim>\<open>NaN\<close> and the infinities (which a sum of magnitude \<open>2 ^ 1024\<close>
  gives) are outside this development.
\<close>

function spacing :: "int \<Rightarrow> int" where
  "spacing m = (if m < 2 ^ 53 then 1 else 2 * spacing (m div 2))"
  by pat_completeness auto
termination
  by (relation "measure nat") auto

declare spacing.simps [simp del]

definition js_round :: "int \<Rightarrow> int" where
  "js_round x =
     (let m = \<bar>x\<bar>; u = spacing m; q = m div u; r = m mod u;
          n = (if 2 * r < u \<or> (2 * r = u \<and> even q) then q else q + 1)
      in sgn x * (n * u))"

definition js_add :: "int \<Rightarrow> int \<Rightarrow> int" where
  "js_add a b = js_round (a + b)"

definition js_sub :: "int \<Rightarrow> int \<Rightarrow> int" where
  "js_sub a b = js_round (a - b)"

datatype status = Idle | Loading | Failed

record CounterState =
  "value" :: int
  status :: status

definition initialState :: CounterState where
  "initialState = \<lparr>value = 0, status = Idle\<rparr>"

text \<open>
  The three case reducers of the \<^verbatim>\<open>reducers\<close> field. Each is written in the
  source as a mutation of an Immer draft; the function returns the next state.
\<close>

definition increment :: "CounterState \<Rightarrow> CounterState" where
  "increment state = state\<lparr>value := js_add (value state) 1\<rparr>"

definition decrement :: "CounterState \<Rightarrow> CounterState" where
  "decrement state = state\<lparr>value := js_sub (value state) 1\<rparr>"

definition incrementByAmount :: "CounterState \<Rightarrow> int \<Rightarrow> CounterState" where
  "incrementByAmount state payload = state\<lparr>value := js_add (value state) payload\<rparr>"

text \<open>
  The two case reducers that \<^verbatim>\<open>extraReducers\<close> adds with
  \<^verbatim>\<open>builder.addCase\<close>, for \<^verbatim>\<open>incrementAsync.pending\<close> and
  \<^verbatim>\<open>incrementAsync.fulfilled\<close>. The fulfilled reducer assigns the status
  first and then adds the payload, in the order of the source.
\<close>

definition pendingCase :: "CounterState \<Rightarrow> CounterState" where
  "pendingCase state = state\<lparr>status := Loading\<rparr>"

definition fulfilledCase :: "CounterState \<Rightarrow> int \<Rightarrow> CounterState" where
  "fulfilledCase state payload =
     (let state1 = state\<lparr>status := Idle\<rparr>
      in state1\<lparr>value := js_add (value state1) payload\<rparr>)"

section \<open>Actions and the slice reducer\<close>

text \<open>
  The actions the store can receive. \<^verbatim>\<open>createSlice\<close> names the action of each
  entry of \<^verbatim>\<open>reducers\<close> after the slice (\<^verbatim>\<open>counter/increment\<close>, ...);
  \<^verbatim>\<open>createAsyncThunk("counter/fetchCount", ...)\<close> produces the three lifecycle
  actions \<^verbatim>\<open>pending\<close>, \<^verbatim>\<open>fulfilled\<close> and \<^verbatim>\<open>rejected\<close>. The pending
  action carries the thunk argument, the fulfilled action the value the payload
  creator returned. \<open>OtherAction t\<close> is an action whose type \<open>t\<close> is none
  of these six, such as the initialisation action of the store or an action of
  another slice of the host.
\<close>

datatype action =
    Increment
  | Decrement
  | IncrementByAmount int
  | FetchCountPending int
  | FetchCountFulfilled int
  | FetchCountRejected
  | OtherAction string

fun actionType :: "action \<Rightarrow> string" where
  "actionType Increment = ''counter/increment''"
| "actionType Decrement = ''counter/decrement''"
| "actionType (IncrementByAmount _) = ''counter/incrementByAmount''"
| "actionType (FetchCountPending _) = ''counter/fetchCount/pending''"
| "actionType (FetchCountFulfilled _) = ''counter/fetchCount/fulfilled''"
| "actionType FetchCountRejected = ''counter/fetchCount/rejected''"
| "actionType (OtherAction t) = t"

text \<open>
  The reducer that \<^verbatim>\<open>createSlice\<close> builds runs the case reducer registered for
  the action's type and returns the state as it is when none is registered. The
  slice registers five: three in \<^verbatim>\<open>reducers\<close>, two in \<^verbatim>\<open>extraReducers\<close>.
\<close>

fun caseReducers :: "CounterState \<Rightarrow> action \<Rightarrow> CounterState" where
  "caseReducers state Increment = increment state"
| "caseReducers state Decrement = decrement state"
| "caseReducers state (IncrementByAmount payload) = incrementByAmount state payload"
| "caseReducers state (FetchCountPending _) = pendingCase state"
| "caseReducers state (FetchCountFulfilled payload) = fulfilledCase state payload"
| "caseReducers state _ = state"

text \<open>
  A Redux reducer is called with \<^verbatim>\<open>undefined\<close> for the state when the store is
  created; the slice reducer then starts from \<^verbatim>\<open>initialState\<close>.
\<close>

definition counterSliceReducer :: "CounterState option \<Rightarrow> action \<Rightarrow> CounterState" where
  "counterSliceReducer state a =
     caseReducers (case state of None \<Rightarrow> initialState | Some s \<Rightarrow> s) a"

section \<open>The store of the host application\<close>

text \<open>
  \<^verbatim>\<open>store.ts\<close> mounts the slice reducer under the key \<^verbatim>\<open>counter\<close>, and
  \<^verbatim>\<open>RootStateInterface\<close> is any object with a \<^verbatim>\<open>counter\<close> field holding a
  \<^verbatim>\<open>CounterState\<close>: an extensible record with that one field.
\<close>

record RootState =
  counter :: CounterState

definition selectCount :: "'a RootState_scheme \<Rightarrow> int" where
  "selectCount state = value (counter state)"

text \<open>
  \<^verbatim>\<open>configureStore\<close> obtains the first state by running the root reducer on an
  undefined state with an initialisation action no slice handles.
\<close>

definition store :: RootState where
  "store = \<lparr>counter = counterSliceReducer None (OtherAction ''@@redux/INIT'')\<rparr>"

definition dispatch :: "RootState \<Rightarrow> action \<Rightarrow> RootState" where
  "dispatch state a = state\<lparr>counter := counterSliceReducer (Some (counter state)) a\<rparr>"

definition dispatchAll :: "RootState \<Rightarrow> action list \<Rightarrow> RootState" where
  "dispatchAll state actions = foldl dispatch state actions"

text \<open>The same on the slice state alone: the slice reducer run over a list of actions.\<close>

definition reduceAll :: "CounterState \<Rightarrow> action list \<Rightarrow> CounterState" where
  "reduceAll state actions = foldl (\<lambda>s a. counterSliceReducer (Some s) a) state actions"

section \<open>Thunks\<close>

text \<open>
  \<^verbatim>\<open>incrementAsync\<close> is made by \<^verbatim>\<open>createAsyncThunk\<close>: dispatching it
  dispatches the pending action at once, awaits \<^verbatim>\<open>fetchCount(amount)\<close>, and
  when that promise settles dispatches the fulfilled action with
  \<^verbatim>\<open>response.data\<close>, or the rejected action. \<^verbatim>\<open>fetchCount\<close> lives in
  \<^verbatim>\<open>counterAPI\<close>; how its promise settles is a parameter here. Other actions
  may be dispatched between the two phases.
\<close>

datatype fetchCount_outcome = Resolves int | Rejects

definition incrementAsync_dispatch :: "int \<Rightarrow> RootState \<Rightarrow> RootState" where
  "incrementAsync_dispatch amount state = dispatch state (FetchCountPending amount)"

definition incrementAsync_settle :: "fetchCount_outcome \<Rightarrow> RootState \<Rightarrow> RootState" where
  "incrementAsync_settle outcome state =
     (case outcome of
        Resolves data \<Rightarrow> dispatch state (FetchCountFulfilled data)
      | Rejects \<Rightarrow> dispatch state FetchCountRejected)"

text \<open>
  The remainder operator \<^verbatim>\<open>%\<close> of the source truncates towards zero: its result
  has the sign of the dividend, unlike \<open>mod\<close> on \<open>int\<close>. The only call has the
  divisor 2, and the remainder of an integer by 2 is exact in binary64.
\<close>

definition js_rem :: "int \<Rightarrow> int \<Rightarrow> int" where
  "js_rem a b = sgn a * (\<bar>a\<bar> mod \<bar>b\<bar>)"

definition incrementIfOdd :: "int \<Rightarrow> RootState \<Rightarrow> RootState" where
  "incrementIfOdd amount state =
     (let currentValue = selectCount state
      in if js_rem currentValue 2 = 1
         then dispatch state (IncrementByAmount amount)
         else state)"

section \<open>The accessor hooks and their rebinding\<close>

text \<open>
  The module exports two mutable bindings, \<^verbatim>\<open>useSliceDispatch\<close> and
  \<^verbatim>\<open>useSliceSelector\<close>, initially the hooks of \<^verbatim>\<open>react-redux\<close>. The
  hooks themselves are values of any type here. \<^verbatim>\<open>initializeSlicePackage\<close>
  assigns both bindings, the dispatch hook first.
\<close>

record ('d, 'sel) sliceHooks =
  useSliceDispatch :: 'd
  useSliceSelector :: 'sel

definition initializeSlicePackage ::
  "'d \<Rightarrow> 'sel \<Rightarrow> ('d, 'sel) sliceHooks \<Rightarrow> ('d, 'sel) sliceHooks" where
  "initializeSlicePackage useAppDispatch useAppSelector hooks =
     (let hooks1 = hooks\<lparr>useSliceDispatch := useAppDispatch\<rparr>
      in hooks1\<lparr>useSliceSelector := useAppSelector\<rparr>)"

text \<open>
  What a host does with the module over time: it calls
  \<^verbatim>\<open>initializeSlicePackage\<close>, or it calls one of the two exported hooks, which
  runs whatever the binding holds at that moment. \<open>hooksUsed\<close> lists, call by
  call, the hook that ran.
\<close>

datatype hookCall = CallUseSliceDispatch | CallUseSliceSelector

datatype ('d, 'sel) hostCall = InitializeSlicePackage 'd 'sel | Hook hookCall

datatype ('d, 'sel) hookUsed = DispatchHook 'd | SelectorHook 'sel

fun callHook :: "('d, 'sel) sliceHooks \<Rightarrow> hookCall \<Rightarrow> ('d, 'sel) hookUsed" where
  "callHook hooks CallUseSliceDispatch = DispatchHook (useSliceDispatch hooks)"
| "callHook hooks CallUseSliceSelector = SelectorHook (useSliceSelector hooks)"

fun hooksUsed ::
  "('d, 'sel) sliceHooks \<Rightarrow> ('d, 'sel) hostCall list \<Rightarrow> ('d, 'sel) hookUsed list" where
  "hooksUsed hooks [] = []"
| "hooksUsed hooks (InitializeSlicePackage d s # calls) =
     hooksUsed (initializeSlicePackage d s hooks) calls"
| "hooksUsed hooks (Hook c # calls) = callHook hooks c # hooksUsed hooks calls"

fun hooksAfter ::
  "('d, 'sel) sliceHooks \<Rightarrow> ('d, 'sel) hostCall list \<Rightarrow> ('d, 'sel) sliceHooks" where
  "hooksAfter hooks [] = hooks"
| "hooksAfter hooks (InitializeSlicePackage d s # calls) =
     hooksAfter (initializeSlicePackage d s hooks) calls"
| "hooksAfter hooks (Hook c # calls) = hooksAfter hooks calls"

section \<open>Basic facts\<close>

text \<open>Sums and differences of magnitude up to \<open>2 ^ 53\<close> are exact.\<close>

lemma spacing_small: "m < 2 ^ 53 \<Longrightarrow> spacing m = 1"
  by (simp add: spacing.simps)

lemma spacing_next: "2 ^ 53 \<le> m \<Longrightarrow> m < 2 ^ 54 \<Longrightarrow> spacing m = 2"
  by (subst spacing.simps) (simp add: spacing_small)

lemma js_round_exact: "\<bar>x\<bar> \<le> 2 ^ 53 \<Longrightarrow> js_round x = x"
proof (cases "\<bar>x\<bar> < 2 ^ 53")
  case True
  then show ?thesis
    by (simp add: js_round_def spacing_small Let_def sgn_if)
next
  case False
  assume "\<bar>x\<bar> \<le> 2 ^ 53"
  with False have m: "\<bar>x\<bar> = 2 ^ 53" by simp
  then have "spacing \<bar>x\<bar> = 2" by (simp add: spacing_next)
  with m show ?thesis
    by (cases "0 < x") (simp_all add: js_round_def Let_def)
qed

lemma js_add_exact: "\<bar>a + b\<bar> \<le> 2 ^ 53 \<Longrightarrow> js_add a b = a + b"
  by (simp add: js_add_def js_round_exact)

lemma js_sub_exact: "\<bar>a - b\<bar> \<le> 2 ^ 53 \<Longrightarrow> js_sub a b = a - b"
  by (simp add: js_sub_def js_round_exact)

text \<open>Just above \<open>2 ^ 53\<close> the odd integers are missing.\<close>

lemma js_round_above:
  "js_round 9007199254740993 = 9007199254740992"
  "js_round 9007199254740994 = 9007199254740994"
  by (simp_all add: js_round_def Let_def spacing_next)

lemma slice_reducer_Some [simp]:
  "counterSliceReducer (Some s) a = caseReducers s a"
  by (simp add: counterSliceReducer_def)

lemma counter_dispatch:
  "counter (dispatch state a) = caseReducers (counter state) a"
  by (simp add: dispatch_def)

lemma counter_dispatchAll:
  "counter (dispatchAll state actions) = reduceAll (counter state) actions"
  unfolding dispatchAll_def reduceAll_def
  by (induction actions arbitrary: state) (simp_all add: counter_dispatch)

lemma store_counter: "counter store = initialState"
  by (simp add: store_def counterSliceReducer_def)

lemma dispatch_unhandled: "dispatch state FetchCountRejected = state"
  by (simp add: dispatch_def)

text \<open>
  What one action can do to the status: nothing, or set it to \<open>Loading\<close> (the
  pending action), or to \<open>Idle\<close> (the fulfilled action).
\<close>

lemma caseReducers_status_cases:
  "status (caseReducers s a) = status s \<or>
   (\<exists>x. a = FetchCountPending x) \<and> status (caseReducers s a) = Loading \<or>
   (\<exists>p. a = FetchCountFulfilled p) \<and> status (caseReducers s a) = Idle"
  by (cases a)
     (simp_all add: increment_def decrement_def incrementByAmount_def pendingCase_def
        fulfilledCase_def)

lemma caseReducers_not_Failed:
  "status s \<noteq> Failed \<Longrightarrow> status (caseReducers s a) \<noteq> Failed"
  using caseReducers_status_cases [of s a] by auto

lemma reduceAll_not_Failed:
  "status s \<noteq> Failed \<Longrightarrow> status (reduceAll s actions) \<noteq> Failed"
  unfolding reduceAll_def
  by (induction actions arbitrary: s) (simp_all add: caseReducers_not_Failed)

lemma caseReducers_stays_Loading:
  "status s = Loading \<Longrightarrow> \<forall>p. a \<noteq> FetchCountFulfilled p \<Longrightarrow>
   status (caseReducers s a) = Loading"
  using caseReducers_status_cases [of s a] by auto

lemma reduceAll_stays_Loading:
  "status s = Loading \<Longrightarrow> \<forall>a\<in>set actions. \<forall>p. a \<noteq> FetchCountFulfilled p \<Longrightarrow>
   status (reduceAll s actions) = Loading"
  unfolding reduceAll_def
  by (induction actions arbitrary: s) (simp_all add: caseReducers_stays_Loading)

lemma hooksUsed_append:
  "hooksUsed hooks (xs @ ys) = hooksUsed hooks xs @ hooksUsed (hooksAfter hooks xs) ys"
  by (induction hooks xs rule: hooksUsed.induct) simp_all

lemma hooksUsed_hooks_only:
  "hooksUsed hooks (map Hook calls) = map (callHook hooks) calls"
  by (induction calls) simp_all

lemma callHook_initializeSlicePackage:
  "callHook (initializeSlicePackage d s hooks) c =
     callHook \<lparr>useSliceDispatch = d, useSliceSelector = s\<rparr> c"
  by (cases c) (simp_all add: initializeSlicePackage_def)

text \<open>
  The test \<^verbatim>\<open>currentValue % 2 === 1\<close> in terms of the integer: it holds for the
  odd values above zero and for no other value.
\<close>

lemma js_rem_2: "js_rem v 2 = 1 \<longleftrightarrow> odd v \<and> 0 < v"
proof (cases "0 < v")
  case True
  then show ?thesis by (simp add: js_rem_def odd_iff_mod_2_eq_one)
next
  case False
  have "sgn v * (\<bar>v\<bar> mod 2) \<le> 0"
    using False by (simp add: sgn_if mult_le_0_iff)
  with False show ?thesis by (simp add: js_rem_def)
qed

lemma incrementIfOdd_eq:
  "incrementIfOdd amount state =
     (if odd (selectCount state) \<and> 0 < selectCount state
      then dispatch state (IncrementByAmount amount) else state)"
  by (simp add: incrementIfOdd_def js_rem_2)

lemma incrementIfOdd_examples:
  "incrementIfOdd 5 \<lparr>counter = \<lparr>value = 3, status = Idle\<rparr>\<rparr>
     = \<lparr>counter = \<lparr>value = 8, status = Idle\<rparr>\<rparr>"
  "incrementIfOdd 5 \<lparr>counter = \<lparr>value = 4, status = Idle\<rparr>\<rparr>
     = \<lparr>counter = \<lparr>value = 4, status = Idle\<rparr>\<rparr>"
  by (simp_all add: incrementIfOdd_eq selectCount_def dispatch_def incrementByAmount_def
      js_add_exact)

lemma increment_funpow:
  "- (2 ^ 53) \<le> value state \<Longrightarrow> value state + int k \<le> 2 ^ 53 \<Longrightarrow>
   (increment ^^ k) state = state\<lparr>value := value state + int k\<rparr>"
proof (induction k)
  case 0
  then show ?case by simp
next
  case (Suc k)
  then have ih: "(increment ^^ k) state = state\<lparr>value := value state + int k\<rparr>"
    by simp
  from Suc.prems have "\<bar>(value state + int k) + 1\<bar> \<le> 2 ^ 53"
    by simp
  then have exact: "js_add (value state + int k) 1 = value state + int k + 1"
    by (rule js_add_exact)
  have "(increment ^^ Suc k) state = increment (state\<lparr>value := value state + int k\<rparr>)"
    by (simp add: ih)
  also have "\<dots> = state\<lparr>value := value state + int k + 1\<rparr>"
    by (simp add: increment_def exact)
  finally show ?case
    by (simp add: add.assoc)
qed

lemma reduceAll_replicate_Increment:
  "reduceAll state (replicate k Increment) = (increment ^^ k) state"
  unfolding reduceAll_def
  by (induction k arbitrary: state) (simp_all add: funpow_swap1)

section \<open>The asynchronous increment\<close>

text \<open>
  Claim C1. Whatever the state of the store, dispatching \<^verbatim>\<open>incrementAsync(amount)\<close>
  sets the status to loading and keeps the value. When \<^verbatim>\<open>fetchCount\<close> resolves
  with \<open>result\<close>, after any actions dispatched in between, the status becomes idle
  and \<open>result\<close> is added, by the addition of the source, to the value the counter
  has at that moment; the new value is their exact sum when that is of magnitude
  up to \<open>2 ^ 53\<close>. From \<open>{value: 10, status: idle}\<close>, \<^verbatim>\<open>incrementAsync(7)\<close>
  gives \<open>{value: 10, status: loading}\<close> and, once resolved with 7,
  \<open>{value: 17, status: idle}\<close>.
\<close>

theorem incrementAsync_lifecycle:
  "counter (incrementAsync_dispatch amount state) = (counter state)\<lparr>status := Loading\<rparr>
   \<and> counter (incrementAsync_settle (Resolves result)
        (dispatchAll (incrementAsync_dispatch amount state) between))
     = \<lparr>value = js_add
                 (value (counter (dispatchAll (incrementAsync_dispatch amount state) between)))
                 result,
        status = Idle\<rparr>
   \<and> (\<bar>value (counter (dispatchAll (incrementAsync_dispatch amount state) between))
         + result\<bar> \<le> 2 ^ 53 \<longrightarrow>
      counter (incrementAsync_settle (Resolves result)
        (dispatchAll (incrementAsync_dispatch amount state) between))
      = \<lparr>value = value (counter (dispatchAll (incrementAsync_dispatch amount state) between))
                  + result,
         status = Idle\<rparr>)
   \<and> incrementAsync_dispatch 7 \<lparr>counter = \<lparr>value = 10, status = Idle\<rparr>\<rparr>
     = \<lparr>counter = \<lparr>value = 10, status = Loading\<rparr>\<rparr>
   \<and> incrementAsync_settle (Resolves 7) \<lparr>counter = \<lparr>value = 10, status = Loading\<rparr>\<rparr>
     = \<lparr>counter = \<lparr>value = 17, status = Idle\<rparr>\<rparr>"
  by (simp add: incrementAsync_dispatch_def incrementAsync_settle_def counter_dispatch
      dispatch_def pendingCase_def fulfilledCase_def js_add_exact)

theorem incrementAsync_lifecycle_witness:
  "counter (incrementAsync_settle (Resolves 7)
     (dispatchAll (incrementAsync_dispatch 7 \<lparr>counter = \<lparr>value = 10, status = Idle\<rparr>\<rparr>)
        [Increment, Decrement, Decrement]))
   = \<lparr>value = 16, status = Idle\<rparr>"
  using incrementAsync_lifecycle
    [where state = "\<lparr>counter = \<lparr>value = 10, status = Idle\<rparr>\<rparr>" and amount = 7
       and result = 7 and between = "[Increment, Decrement, Decrement]"]
  by (simp add: dispatchAll_def incrementAsync_dispatch_def dispatch_def pendingCase_def
      increment_def decrement_def js_add_exact js_sub_exact)

section \<open>The status \<open>failed\<close>\<close>

text \<open>
  Claim C2. Starting from the state of the freshly created store, no sequence of
  actions, whether handled by the slice or not, leads to a state whose status is
  failed.
\<close>

theorem failed_never_reached:
  "status (counter (dispatchAll store actions)) \<noteq> Failed"
  by (simp add: counter_dispatchAll store_counter reduceAll_not_Failed initialState_def)

text \<open>
  Claim C3. When \<^verbatim>\<open>fetchCount\<close> rejects, the rejected action changes nothing in
  the store: the slice has no case for it. The status, set to loading when the
  thunk was dispatched, stays loading through every later action other than a
  fulfilled one.
\<close>

theorem rejection_leaves_loading:
  "incrementAsync_settle Rejects state = state
   \<and> ((\<forall>a\<in>set later. \<forall>p. a \<noteq> FetchCountFulfilled p) \<longrightarrow>
      status (counter (dispatchAll
        (incrementAsync_settle Rejects (incrementAsync_dispatch amount state)) later)) = Loading)"
  by (simp add: incrementAsync_settle_def dispatch_unhandled counter_dispatchAll
      reduceAll_stays_Loading incrementAsync_dispatch_def counter_dispatch pendingCase_def)

theorem rejection_leaves_loading_witness:
  "incrementAsync_settle Rejects store = store
   \<and> counter (dispatchAll (incrementAsync_settle Rejects (incrementAsync_dispatch 7 store))
        [Increment, FetchCountRejected, IncrementByAmount 2]) = \<lparr>value = 3, status = Loading\<rparr>"
  using rejection_leaves_loading [of store "[Increment, FetchCountRejected, IncrementByAmount 2]" 7]
  by (simp add: dispatchAll_def incrementAsync_settle_def incrementAsync_dispatch_def
      dispatch_def store_def counterSliceReducer_def initialState_def
      increment_def incrementByAmount_def pendingCase_def js_add_exact)

section \<open>Rebinding the hooks\<close>

text \<open>
  Claim C6. Once \<^verbatim>\<open>initializeSlicePackage(useAppDispatch, useAppSelector)\<close> has
  been called, every later call of \<^verbatim>\<open>useSliceDispatch\<close> and of
  \<^verbatim>\<open>useSliceSelector\<close>, not only the next one, runs the host's hook of that
  call. Whatever happened before that call, earlier calls of
  \<^verbatim>\<open>initializeSlicePackage\<close> included, has no influence: the last pair wins.
\<close>

theorem initializeSlicePackage_rebinds:
  "hooksUsed hooks (earlier @ InitializeSlicePackage d s # map Hook later) =
     hooksUsed hooks earlier @
     map (callHook \<lparr>useSliceDispatch = d, useSliceSelector = s\<rparr>) later"
  by (simp add: hooksUsed_append hooksUsed_hooks_only callHook_initializeSlicePackage)

section \<open>The conditional increment\<close>

text \<open>
  Claim C4. For every counter and every amount, \<^verbatim>\<open>incrementIfOdd(amount)\<close>
  dispatches \<^verbatim>\<open>incrementByAmount(amount)\<close> when the remainder of the counter
  by 2, taken with the sign of the counter, is 1, and leaves the state as it is
  otherwise. With the counter at 3 and the amount 5 the counter becomes 8; at 4
  it stays 4. The rule holds for negative counters as well: their remainder is
  0 or \<open>-1\<close>, never 1, so the state stays as it is, as at \<open>-3\<close>.
\<close>

theorem incrementIfOdd_rule:
  "incrementIfOdd amount state =
     (if js_rem (value (counter state)) 2 = 1
      then dispatch state (IncrementByAmount amount) else state)
   \<and> (value (counter state) < 0 \<longrightarrow> incrementIfOdd amount state = state)
   \<and> incrementIfOdd 5 \<lparr>counter = \<lparr>value = 3, status = Idle\<rparr>\<rparr>
     = \<lparr>counter = \<lparr>value = 8, status = Idle\<rparr>\<rparr>
   \<and> incrementIfOdd 5 \<lparr>counter = \<lparr>value = 4, status = Idle\<rparr>\<rparr>
     = \<lparr>counter = \<lparr>value = 4, status = Idle\<rparr>\<rparr>
   \<and> incrementIfOdd 5 \<lparr>counter = \<lparr>value = - 3, status = Idle\<rparr>\<rparr>
     = \<lparr>counter = \<lparr>value = - 3, status = Idle\<rparr>\<rparr>"
  by (simp add: incrementIfOdd_examples)
     (simp add: incrementIfOdd_def selectCount_def js_rem_2)

theorem incrementIfOdd_rule_witness:
  "js_rem (- 7) 2 = - 1
   \<and> incrementIfOdd 2 \<lparr>counter = \<lparr>value = - 7, status = Loading\<rparr>\<rparr>
     = \<lparr>counter = \<lparr>value = - 7, status = Loading\<rparr>\<rparr>"
  using incrementIfOdd_rule
    [where state = "\<lparr>counter = \<lparr>value = - 7, status = Loading\<rparr>\<rparr>" and amount = 2]
  by (simp add: js_rem_def)

section \<open>Which actions write which field\<close>

text \<open>
  Claim C5. The pending action leaves the value as it is, and an action after
  which the value differs is one of increment, decrement, incrementByAmount and
  the fulfilled action: no other action, handled or not, changes the value.
\<close>

theorem value_frame:
  "value (counterSliceReducer (Some state) (FetchCountPending amount)) = value state
   \<and> (value (counterSliceReducer (Some state) a) \<noteq> value state \<longrightarrow>
        a = Increment \<or> a = Decrement \<or> (\<exists>n. a = IncrementByAmount n)
        \<or> (\<exists>p. a = FetchCountFulfilled p))"
  by (cases a) (simp_all add: pendingCase_def)

theorem value_frame_witness:
  "value (counterSliceReducer (Some initialState) (IncrementByAmount 4)) = 4
   \<and> value initialState = 0
   \<and> (IncrementByAmount 4 = Increment \<or> IncrementByAmount 4 = Decrement
      \<or> (\<exists>n. IncrementByAmount 4 = IncrementByAmount n)
      \<or> (\<exists>p. IncrementByAmount 4 = FetchCountFulfilled p))"
  using value_frame [of initialState 0 "IncrementByAmount 4"]
  by (simp add: initialState_def incrementByAmount_def js_add_exact)

text \<open>
  Claim C10. Increment, decrement and incrementByAmount keep the status, whatever
  the state and the payload, and an action after which the status differs is the
  pending or the fulfilled action of \<^verbatim>\<open>incrementAsync\<close>.
\<close>

theorem status_frame:
  "status (increment state) = status state
   \<and> status (decrement state) = status state
   \<and> status (incrementByAmount state payload) = status state
   \<and> (status (counterSliceReducer (Some state) a) \<noteq> status state \<longrightarrow>
        (\<exists>x. a = FetchCountPending x) \<or> (\<exists>p. a = FetchCountFulfilled p))"
  using caseReducers_status_cases [of state a]
  by (auto simp add: increment_def decrement_def incrementByAmount_def)

theorem status_frame_witness:
  "status (counterSliceReducer (Some initialState) (FetchCountPending 7)) = Loading
   \<and> status initialState = Idle
   \<and> ((\<exists>x. FetchCountPending 7 = FetchCountPending x)
      \<or> (\<exists>p. FetchCountPending 7 = FetchCountFulfilled p))"
  using status_frame [of initialState 0 "FetchCountPending 7"]
  by (simp add: initialState_def pendingCase_def)

section \<open>Increment and decrement\<close>

text \<open>
  Claim C7, as stated: decrement after increment leaves the value unchanged in
  every state. It fails at the value \<open>2 ^ 53 = 9007199254740992\<close>, which one
  \<^verbatim>\<open>incrementByAmount\<close> reaches from the initial state: the increment rounds
  \<open>2 ^ 53 + 1\<close> back to \<open>2 ^ 53\<close>, and the decrement then gives \<open>2 ^ 53 - 1\<close>.
\<close>

theorem decrement_increment_counterexample:
  "reduceAll initialState [IncrementByAmount 9007199254740992]
     = \<lparr>value = 9007199254740992, status = Idle\<rparr>
   \<and> increment \<lparr>value = 9007199254740992, status = Idle\<rparr>
     = \<lparr>value = 9007199254740992, status = Idle\<rparr>
   \<and> decrement (increment \<lparr>value = 9007199254740992, status = Idle\<rparr>)
     = \<lparr>value = 9007199254740991, status = Idle\<rparr>
   \<and> value (decrement (increment \<lparr>value = 9007199254740992, status = Idle\<rparr>))
     \<noteq> value \<lparr>value = 9007199254740992, status = Idle\<rparr>"
  by (simp add: reduceAll_def initialState_def incrementByAmount_def increment_def
      decrement_def js_add_def js_sub_def js_round_above js_round_exact)

text \<open>
  Claim C7, amended. In every state whose value is an integer from \<open>- 2 ^ 53\<close>
  to \<open>2 ^ 53 - 1\<close>, decrement after increment gives back the state it started
  from, and so the same value: as case reducers, and as the two actions sent
  through the slice reducer.
\<close>

theorem decrement_inverts_increment:
  "- (2 ^ 53) \<le> value state \<Longrightarrow> value state < 2 ^ 53 \<Longrightarrow>
   decrement (increment state) = state
   \<and> reduceAll state [Increment, Decrement] = state
   \<and> value (counterSliceReducer (Some (counterSliceReducer (Some state) Increment)) Decrement)
       = value state"
  by (simp add: reduceAll_def increment_def decrement_def js_add_exact js_sub_exact)

theorem decrement_inverts_increment_witness:
  "decrement (increment \<lparr>value = 9007199254740991, status = Loading\<rparr>)
     = \<lparr>value = 9007199254740991, status = Loading\<rparr>
   \<and> reduceAll \<lparr>value = 9007199254740991, status = Loading\<rparr> [Increment, Decrement]
     = \<lparr>value = 9007199254740991, status = Loading\<rparr>"
  using decrement_inverts_increment [of "\<lparr>value = 9007199254740991, status = Loading\<rparr>"]
  by simp

text \<open>
  Claim C8, as stated: for every state and every integer \<open>n\<close> that is not
  negative, \<open>n\<close> increments give the value that one incrementByAmount of \<open>n\<close>
  gives. It fails at the value \<open>2 ^ 53\<close> with \<open>n = 2\<close>: each increment rounds back
  to \<open>2 ^ 53\<close>, while \<open>2 ^ 53 + 2\<close> is a binary64 number.
\<close>

theorem increment_n_times_counterexample:
  "(increment ^^ nat 2) \<lparr>value = 9007199254740992, status = Idle\<rparr>
     = \<lparr>value = 9007199254740992, status = Idle\<rparr>
   \<and> incrementByAmount \<lparr>value = 9007199254740992, status = Idle\<rparr> 2
     = \<lparr>value = 9007199254740994, status = Idle\<rparr>
   \<and> value ((increment ^^ nat 2) \<lparr>value = 9007199254740992, status = Idle\<rparr>)
     \<noteq> value (incrementByAmount \<lparr>value = 9007199254740992, status = Idle\<rparr> 2)"
  by (simp add: eval_nat_numeral increment_def incrementByAmount_def js_add_def
      js_round_above)

text \<open>
  Claim C8, amended. For an integer \<open>n\<close> that is not negative and a state whose
  value \<open>v\<close> is an integer with \<open>- 2 ^ 53 \<le> v\<close> and \<open>v + n \<le> 2 ^ 53\<close>, \<open>n\<close>
  increments give the state that one incrementByAmount of \<open>n\<close> gives, and so the
  same value.
\<close>

theorem increment_n_times:
  "0 \<le> n \<Longrightarrow> - (2 ^ 53) \<le> value state \<Longrightarrow> value state + n \<le> 2 ^ 53 \<Longrightarrow>
   (increment ^^ nat n) state = incrementByAmount state n
   \<and> reduceAll state (replicate (nat n) Increment)
       = counterSliceReducer (Some state) (IncrementByAmount n)"
  by (simp add: reduceAll_replicate_Increment increment_funpow incrementByAmount_def
      js_add_exact)

theorem increment_n_times_witness:
  "(increment ^^ nat 3) \<lparr>value = 10, status = Loading\<rparr> = \<lparr>value = 13, status = Loading\<rparr>
   \<and> incrementByAmount \<lparr>value = 10, status = Loading\<rparr> 3 = \<lparr>value = 13, status = Loading\<rparr>"
  using increment_n_times [of 3 "\<lparr>value = 10, status = Loading\<rparr>"]
  by (simp add: incrementByAmount_def js_add_exact)

section \<open>The initial state\<close>

text \<open>
  Claim C9. The initial state of the slice is exactly \<open>{value: 0, status: idle}\<close>:
  as the constant, as what the slice reducer returns for an undefined state and
  an action it does not handle, and as the counter of the freshly created store.
\<close>

theorem initialState_exact:
  "initialState = \<lparr>value = 0, status = Idle\<rparr>
   \<and> counterSliceReducer None (OtherAction t) = \<lparr>value = 0, status = Idle\<rparr>
   \<and> store = \<lparr>counter = \<lparr>value = 0, status = Idle\<rparr>\<rparr>"
  by (simp add: initialState_def counterSliceReducer_def store_def)

end
